theory Spec2Isabelle
  imports Main "HOL-Library.Word" "HOL-Library.Log_Nat"
begin

unbundle bit_operations_syntax

section \<open>Machine types of the Go source\<close>

text \<open>
  Fixed-width integers are words. A signed type is the word read with \<open>sint\<close>, an
  unsigned one the word read with \<open>unat\<close>/\<open>uint\<close>. Go converts between integer
  types by extending the operand (sign extension for a signed operand, zero extension
  for an unsigned one) and truncating to the width of the result: \<open>scast\<close> and
  \<open>ucast\<close>. Floating-point values are carried as their IEEE-754 bit patterns, so
  \<open>math.Float32bits\<close>, \<open>math.Float64bits\<close> and \<open>math.Float64frombits\<close> are the
  identity on the pattern. A Go string and a byte slice are both lists of bytes.
\<close>

type_synonym int32 = "32 word"
type_synonym int64 = "64 word"
type_synonym uint8 = "8 word"
type_synonym uint32 = "32 word"
type_synonym uint64 = "64 word"
type_synonym float32 = "32 word"
type_synonym float64 = "64 word"

definition int64_of_uint64 :: "uint64 \<Rightarrow> int64" where
  "int64_of_uint64 v = ucast v"

definition uint64_of_int64 :: "int64 \<Rightarrow> uint64" where
  "uint64_of_int64 n = scast n"

definition int64_of_uint32 :: "uint32 \<Rightarrow> int64" where
  "int64_of_uint32 v = ucast v"

definition int64_of_uint8 :: "uint8 \<Rightarrow> int64" where
  "int64_of_uint8 v = ucast v"

definition Float32bits :: "float32 \<Rightarrow> uint32" where
  "Float32bits f = f"

definition Float64bits :: "float64 \<Rightarrow> uint64" where
  "Float64bits f = f"

definition Float64frombits :: "uint64 \<Rightarrow> float64" where
  "Float64frombits b = b"

section \<open>The parts of package strconv that field.go calls\<close>

text \<open>
  \<open>strconv.AppendInt\<close> and \<open>strconv.AppendUint\<close> in base 10: an optional minus
  sign and the decimal digits, most significant first, taken from the digit table.
\<close>

fun formatBits :: "nat \<Rightarrow> string" where
  "formatBits u =
     (if u < 10 then [''0123456789'' ! u]
      else formatBits (u div 10) @ [''0123456789'' ! (u mod 10)])"

declare formatBits.simps [simp del]

definition AppendInt :: "string \<Rightarrow> int64 \<Rightarrow> string" where
  "AppendInt dst i =
     (if sint i < 0 then dst @ ''-'' @ formatBits (nat (- sint i))
      else dst @ formatBits (nat (sint i)))"

definition AppendUint :: "string \<Rightarrow> uint64 \<Rightarrow> string" where
  "AppendUint dst i = dst @ formatBits (unat i)"

definition AppendBool :: "string \<Rightarrow> bool \<Rightarrow> string" where
  "AppendBool dst b = (if b then dst @ ''true'' else dst @ ''false'')"

text \<open>
  The conversion \<open>float32(val)\<close> that \<open>strconv.AppendFloat\<close> performs for
  \<open>bitSize = 32\<close>: IEEE-754 narrowing from binary64 to binary32, rounding to nearest
  with ties to even. The magnitude \<open>m * 2 ^ e\<close> is rounded to the quantum \<open>2 ^ q\<close> of
  the binary32 format at that magnitude; with \<open>sig\<close> the rounded multiple of the
  quantum, the binary32 pattern is \<open>(q + 149) * 2 ^ 23 + sig\<close> for subnormal and normal
  results alike, and a pattern that reaches the exponent field 255 is infinity.
\<close>

definition round_half_even :: "nat \<Rightarrow> nat \<Rightarrow> nat" where
  "round_half_even m k =
     (let q = m div 2 ^ k; r = m mod 2 ^ k in
      if 2 * r < 2 ^ k then q
      else if 2 * r > 2 ^ k then q + 1
      else if even q then q else q + 1)"

definition round_binary32 :: "nat \<Rightarrow> int \<Rightarrow> nat" where
  "round_binary32 m e =
     (if m = 0 then 0
      else
        let E = e + bitlen (int m) - 1;
            q = max (E - 23) (- 149);
            sig = (if e \<le> q then round_half_even m (nat (q - e))
                   else m * 2 ^ nat (e - q));
            pat = nat (q + 149) * 2 ^ 23 + sig
        in if pat \<ge> 0x7F800000 then 0x7F800000 else pat)"

definition float32_of_float64 :: "float64 \<Rightarrow> float32" where
  "float32_of_float64 f =
     (let sign = (if bit f 63 then (0x80000000 :: 32 word) else 0);
          ex = unat (drop_bit 52 f AND 0x7FF);
          man = unat (f AND 0xFFFFFFFFFFFFF)
      in if ex = 0x7FF then
           (if man = 0 then sign OR 0x7F800000
            else sign OR 0x7FC00000 OR word_of_nat (man div 2 ^ 29))
         else if ex = 0 then sign OR word_of_nat (round_binary32 man (- 1074))
         else sign OR word_of_nat (round_binary32 (2 ^ 52 + man) (int ex - 1075)))"

text \<open>
  The shortest-digits formatter of strconv (format \<open>'f'\<close>, precision \<open>-1\<close>) is library
  code outside the repository. It is a parameter: \<open>shortest32\<close> renders a binary32
  value, \<open>shortest64\<close> a binary64 value. \<open>AppendFloat\<close> chooses between them by
  \<open>bitSize\<close>, narrowing the value first when \<open>bitSize\<close> is 32.
\<close>

record strconv =
  shortest32 :: "float32 \<Rightarrow> string"
  shortest64 :: "float64 \<Rightarrow> string"

definition AppendFloat :: "strconv \<Rightarrow> string \<Rightarrow> float64 \<Rightarrow> nat \<Rightarrow> string" where
  "AppendFloat sc dst f bitSize =
     (if bitSize = 32 then dst @ shortest32 sc (float32_of_float64 f)
      else dst @ shortest64 sc f)"

section \<open>Elements and fields (field.go)\<close>

type_synonym ElementType = uint8

definition TypeInt :: ElementType where "TypeInt = 1"
definition TypeUint :: ElementType where "TypeUint = 2"
definition TypeFloat32 :: ElementType where "TypeFloat32 = 3"
definition TypeFloat64 :: ElementType where "TypeFloat64 = 4"
definition TypeBoolean :: ElementType where "TypeBoolean = 5"
definition TypeString :: ElementType where "TypeString = 6"
definition TypeBytes :: ElementType where "TypeBytes = 7"
definition TypeFields :: ElementType where "TypeFields = 8"
definition TypeValue :: ElementType where "TypeValue = 9"

lemmas ElementType_defs =
  TypeInt_def TypeUint_def TypeFloat32_def TypeFloat64_def TypeBoolean_def
  TypeString_def TypeBytes_def TypeFields_def TypeValue_def

text \<open>
  The \<open>Interface\<close> slot holds any Go value. The model distinguishes what
  \<open>FormatJSON\<close> can tell apart: the nil interface, a byte slice, the formatter types
  that field.go declares, a value of some other type that implements
  \<open>JSONFormatter\<close> (given by its \<open>FormatJSON\<close> method), and a value that does not.
  \<open>Field\<close> embeds \<open>Element\<close>, so a field's \<open>FormatJSON\<close> is its element's.
\<close>

datatype Element =
  Element (Type: ElementType) (Number: int64) (String: string) (Interface: Value)
and Value =
    NilValue
  | BytesValue string
  | ElementFields "Field list"
  | ElementInts "int64 list"
  | ElementUint64s "uint64 list"
  | ElementFloat32s "float32 list"
  | ElementFloat64s "float64 list"
  | ElementBooleans "bool list"
  | ElementStrings "string list"
  | FormatterValue "string \<Rightarrow> string"
  | OtherValue
and Field =
  Field (element: Element) (Name: string)

datatype panic = TypeAssertionPanic

text \<open>The loops of the typed arrays: the separator follows every member but the last.\<close>

fun joinJSON :: "(string \<Rightarrow> 'a \<Rightarrow> string) \<Rightarrow> 'a list \<Rightarrow> string \<Rightarrow> string" where
  "joinJSON app [] buffer = buffer"
| "joinJSON app [x] buffer = app buffer x"
| "joinJSON app (x # y # ys) buffer = joinJSON app (y # ys) (app buffer x @ '', '')"

definition float64_of_float32 :: "float32 \<Rightarrow> float64" where
  "float64_of_float32 f =
     (let sign = (if bit f 31 then (0x8000000000000000 :: 64 word) else 0);
          ex = unat (drop_bit 23 f AND 0xFF);
          man = unat (f AND 0x7FFFFF)
      in if ex = 0xFF then
           (if man = 0 then sign OR 0x7FF0000000000000
            else sign OR 0x7FF8000000000000 OR word_of_nat (man * 2 ^ 29))
         else if ex = 0 then
           (if man = 0 then sign
            else let k = nat (bitlen (int man))
                 in sign OR word_of_nat ((k + 873) * 2 ^ 52 + (man * 2 ^ (53 - k) - 2 ^ 52)))
         else sign OR word_of_nat ((ex + 896) * 2 ^ 52 + man * 2 ^ 29))"

primrec FormatJSON :: "Element \<Rightarrow> strconv \<Rightarrow> string \<Rightarrow> panic + string"
  and FormatJSON_Value :: "Value \<Rightarrow> strconv \<Rightarrow> string \<Rightarrow> panic + string"
  and FormatJSON_Field :: "Field \<Rightarrow> strconv \<Rightarrow> string \<Rightarrow> panic + string"
  and FormatJSON_members :: "Field list \<Rightarrow> strconv \<Rightarrow> string \<Rightarrow> panic + string"
where
  \<open>FormatJSON (Element t n s i) sc buffer =
     (if t = TypeInt then Inr (AppendInt buffer n)
      else if t = TypeUint then Inr (AppendUint buffer (uint64_of_int64 n))
      else if t = TypeFloat32 then
        Inr (AppendFloat sc buffer (Float64frombits (uint64_of_int64 n)) 32)
      else if t = TypeFloat64 then
        Inr (AppendFloat sc buffer (Float64frombits (uint64_of_int64 n)) 64)
      else if t = TypeBoolean then
        (if 0 <s n then Inr (buffer @ ''true'') else Inr (buffer @ ''false''))
      else if t = TypeString then Inr (buffer @ ''"'' @ s @ ''"'')
      else if t = TypeBytes then
        (case i of BytesValue b \<Rightarrow> Inr (buffer @ ''"'' @ b @ ''"'')
                 | _ \<Rightarrow> Inl TypeAssertionPanic)
      else FormatJSON_Value i sc buffer)\<close>
| \<open>FormatJSON_Value NilValue sc buffer = Inr (buffer @ ''???'')\<close>
| \<open>FormatJSON_Value (BytesValue b) sc buffer = Inr (buffer @ ''???'')\<close>
| \<open>FormatJSON_Value (ElementFields e) sc buffer =
     (case FormatJSON_members e sc (buffer @ ''{'') of
        Inl p \<Rightarrow> Inl p
      | Inr buffer' \<Rightarrow> Inr (buffer' @ ''}''))\<close>
| \<open>FormatJSON_Value (ElementInts e) sc buffer =
     Inr (joinJSON AppendInt e (buffer @ ''['') @ '']'')\<close>
| \<open>FormatJSON_Value (ElementUint64s e) sc buffer =
     Inr (joinJSON AppendUint e (buffer @ ''['') @ '']'')\<close>
| \<open>FormatJSON_Value (ElementFloat32s e) sc buffer =
     Inr (joinJSON (\<lambda>b x. AppendFloat sc b (float64_of_float32 x) 32) e (buffer @ ''['') @ '']'')\<close>
| \<open>FormatJSON_Value (ElementFloat64s e) sc buffer =
     Inr (joinJSON (\<lambda>b x. AppendFloat sc b x 64) e (buffer @ ''['') @ '']'')\<close>
| \<open>FormatJSON_Value (ElementBooleans e) sc buffer =
     Inr (joinJSON AppendBool e (buffer @ ''['') @ '']'')\<close>
| \<open>FormatJSON_Value (ElementStrings e) sc buffer =
     Inr (joinJSON (\<lambda>b x. b @ ''"'' @ x @ ''"'') e (buffer @ ''['') @ '']'')\<close>
| \<open>FormatJSON_Value (FormatterValue f) sc buffer = Inr (f buffer)\<close>
| \<open>FormatJSON_Value OtherValue sc buffer = Inr (buffer @ ''???'')\<close>
| \<open>FormatJSON_Field (Field e name) sc buffer = FormatJSON e sc buffer\<close>
| \<open>FormatJSON_members [] sc buffer = Inr buffer\<close>
| \<open>FormatJSON_members (f # fs) sc buffer =
     (case FormatJSON_Field f sc (buffer @ ''"'' @ Name f @ ''": '') of
        Inl p \<Rightarrow> Inl p
      | Inr buffer' \<Rightarrow>
          FormatJSON_members fs sc (if fs \<noteq> [] then buffer' @ '', '' else buffer'))\<close>

definition Int_field :: "string \<Rightarrow> int64 \<Rightarrow> Field" where
  "Int_field name v = Field (Element TypeInt v [] NilValue) name"

definition Uint :: "string \<Rightarrow> uint64 \<Rightarrow> Field" where
  "Uint name v = Field (Element TypeUint (int64_of_uint64 v) [] NilValue) name"

definition Float32 :: "string \<Rightarrow> float32 \<Rightarrow> Field" where
  "Float32 name v =
     Field (Element TypeFloat32 (int64_of_uint32 (Float32bits v)) [] NilValue) name"

definition Float64 :: "string \<Rightarrow> float64 \<Rightarrow> Field" where
  "Float64 name v =
     Field (Element TypeFloat64 (int64_of_uint64 (Float64bits v)) [] NilValue) name"

definition Boolean :: "string \<Rightarrow> bool \<Rightarrow> Field" where
  "Boolean name v =
     (let number = (if v then 1 else 0 :: uint8)
      in Field (Element TypeBoolean (int64_of_uint8 number) [] NilValue) name)"

definition String_field :: "string \<Rightarrow> string \<Rightarrow> Field" where
  "String_field name v = Field (Element TypeString 0 v NilValue) name"

definition Bytes :: "string \<Rightarrow> string \<Rightarrow> Field" where
  "Bytes name v = Field (Element TypeBytes 0 [] (BytesValue v)) name"

definition Fields :: "string \<Rightarrow> Field list \<Rightarrow> Field" where
  "Fields name fs = Field (Element TypeValue 0 [] (ElementFields fs)) name"

section \<open>Properties of the encoder\<close>

subsection \<open>Helper facts about the binary32 pattern carried in the Number slot\<close>

lemma round_half_even_small: "2 * m < 2 ^ k \<Longrightarrow> round_half_even m k = 0"
  by (simp add: round_half_even_def Let_def)

lemma round_binary32_tiny:
  assumes "m < 2 ^ 32"
  shows "round_binary32 m (- 1074) = 0"
proof (cases "m = 0")
  case True
  then show ?thesis by (simp add: round_binary32_def)
next
  case False
  have bl: "bitlen (int m) \<le> 32"
    using assms less_power_nat_iff_bitlen [of m 32] by simp
  have q: "max (- 1074 + bitlen (int m) - 1 - 23) (- 149) = - 149"
    using bl by simp
  have "(2::nat) * m < 2 ^ 33" using assms by simp
  also have "(2::nat) ^ 33 \<le> 2 ^ 925" by (rule power_increasing) simp_all
  finally have r: "round_half_even m 925 = 0" by (rule round_half_even_small)
  show ?thesis
    using False q r by (simp add: round_binary32_def Let_def)
qed

lemma unat_ucast_32_64: "unat (ucast (v :: 32 word) :: 64 word) = unat v"
proof -
  have "unat v < 2 ^ 32" using unsigned_less [of v, where ?'a = nat] by simp
  also have "(2::nat) ^ 32 \<le> 2 ^ 64" by simp
  finally have "take_bit 64 (unat v) = unat v" by (rule take_bit_nat_eq_self)
  then show ?thesis by (simp add: unsigned_ucast_eq)
qed

lemma ucast32_bit63: "\<not> bit (ucast (v :: 32 word) :: 64 word) 63"
  by (auto simp add: bit_ucast_iff dest: bit_imp_le_length)

lemma ucast32_exponent: "drop_bit 52 (ucast (v :: 32 word) :: 64 word) AND 0x7FF = 0"
proof -
  have "drop_bit 52 (ucast v :: 64 word) = 0"
    by (rule bit_word_eqI)
      (auto simp add: bit_drop_bit_eq bit_ucast_iff dest: bit_imp_le_length)
  then show ?thesis by simp
qed

lemma ucast32_mantissa:
  "unat ((ucast (v :: 32 word) :: 64 word) AND 0xFFFFFFFFFFFFF) < 2 ^ 32"
proof -
  have "(ucast v :: 64 word) AND 0xFFFFFFFFFFFFF \<le> ucast v"
    by (rule word_and_le2)
  then have "unat ((ucast v :: 64 word) AND 0xFFFFFFFFFFFFF) \<le> unat (ucast v :: 64 word)"
    by (simp add: word_le_nat_alt)
  also have "unat (ucast v :: 64 word) = unat v"
    by (rule unat_ucast_32_64)
  also have "unat v < 2 ^ 32" using unsigned_less [of v, where ?'a = nat] by simp
  finally show ?thesis .
qed

lemma float32_of_float64_ucast32: "float32_of_float64 (ucast (v :: 32 word)) = 0"
  by (simp add: float32_of_float64_def Let_def ucast32_bit63 ucast32_exponent
      round_binary32_tiny [OF ucast32_mantissa] del: bit_numeral_simps)

text \<open>
  The narrowing itself is exact where it should be: the binary64 pattern of 1.5
  narrows to the binary32 pattern of 1.5, and widening 1.5 gives that binary64 pattern
  back, which is what the array formatter \<open>ElementFloat32s\<close> passes on.
\<close>

lemma narrow_one_and_half: "float32_of_float64 0x3FF8000000000000 = 0x3FC00000"
  by (simp add: float32_of_float64_def Let_def round_binary32_def round_half_even_def
      compute_bitlen)

lemma widen_one_and_half: "float64_of_float32 0x3FC00000 = 0x3FF8000000000000"
  by (simp add: float64_of_float32_def Let_def)

subsection \<open>Claims about FormatJSON\<close>

text \<open>
  C2 (evaluation of the code; the claim does not hold of it). The claim says that a
  field built by \<open>Float32 n v\<close> renders as the shortest decimal that round-trips
  \<open>v\<close>. \<open>Float32\<close> stores the 32-bit pattern of \<open>v\<close> in the Number slot, and
  \<open>FormatJSON\<close> reads that slot back as the pattern of a 64-bit float. Read so, every
  32-bit pattern is a binary64 zero or subnormal, below half of the least binary32
  subnormal, and narrows to positive zero. For every \<open>v\<close>, and whatever the library's
  shortest-digits formatter is, the output is the rendering of positive zero: the field
  \<open>Float32 n 1.5\<close> (pattern \<open>0x3FC00000\<close>) renders like \<open>Float32 n 0\<close>.
\<close>

theorem Float32_FormatJSON_renders_zero:
  "FormatJSON (element (Float32 n v)) sc buffer = Inr (buffer @ shortest32 sc 0)"
  by (simp add: Float32_def ElementType_defs AppendFloat_def Float64frombits_def
      Float32bits_def uint64_of_int64_def int64_of_uint32_def float32_of_float64_ucast32)

text \<open>
  C9. The two-field sequence of an int field \<open>a\<close> with value 1 and a string field
  \<open>b\<close> with value \<open>x\<close>, encoded by \<open>ElementFields.FormatJSON\<close> on an empty buffer,
  gives exactly the bytes \<open>{"a": 1, "b": "x"}\<close>; a boolean element with value true
  encodes as \<open>true\<close> and one with value false as \<open>false\<close>.
\<close>

theorem FormatJSON_fields_and_booleans:
  \<open>FormatJSON_Value (ElementFields [Int_field ''a'' 1, String_field ''b'' ''x'']) sc []
     = Inr ''{"a": 1, "b": "x"}''
   \<and> FormatJSON (element (Boolean n True)) sc [] = Inr ''true''
   \<and> FormatJSON (element (Boolean n False)) sc [] = Inr ''false''\<close>
  by (simp add: Int_field_def String_field_def Boolean_def int64_of_uint8_def
      ElementType_defs AppendInt_def formatBits.simps [of "Suc 0"] word_sless_alt)

text \<open>
  C10. For every name and every uint64 value \<open>v\<close>, also above \<open>2^63 - 1\<close>,
  \<open>FormatJSON\<close> of the field \<open>Uint n v\<close> appends exactly the unsigned base-10 digits
  of \<open>v\<close>: the conversion to int64 keeps the bit pattern, the conversion back to
  uint64 in \<open>FormatJSON\<close> recovers \<open>v\<close>, and the appended text holds digits only.
\<close>

theorem Uint_FormatJSON_decimal:
  "uint64_of_int64 (Number (element (Uint n v))) = v
   \<and> FormatJSON (element (Uint n v)) sc buffer = Inr (buffer @ formatBits (unat v))"
  by (simp add: Uint_def ElementType_defs AppendUint_def int64_of_uint64_def
      uint64_of_int64_def)

end
